theory Spec2Isabelle
  imports Complex_Main
begin

section \<open>Python values and the library collaborators\<close>

text \<open>
  The annotation classes of \<^verbatim>\<open>annotations.py\<close> and the page store of
  \<^verbatim>\<open>pdf_viewer.py\<close> are embedded as functions on records.

  Numbers. A Python \<^verbatim>\<open>float\<close> is modelled as a real number and its arithmetic as
  exact: the rounding of double precision, infinities and NaN are outside the model.
  Every concrete input used below is a dyadic number on which double arithmetic is
  exact, so the evaluations are the values Python computes. Where a statement relates a
  field to a product or quotient of fields, it is the product or quotient the method
  computed. A Python \<^verbatim>\<open>int\<close> is an \<open>int\<close>. \<^verbatim>\<open>int(f)\<close> on a float truncates
  toward zero.

  Exceptions. A method that raises returns \<open>Inl\<close> of the exception; the state it had
  mutated before raising is not described.
\<close>

datatype error =
  ZeroDivisionError | ValueError | AttributeError | KeyError | TypeError | OSError | IndexError

definition py_int :: "real \<Rightarrow> int" where
  "py_int f = (if 0 \<le> f then \<lfloor>f\<rfloor> else \<lceil>f\<rceil>)"

definition and_then :: "error + 'a \<Rightarrow> ('a \<Rightarrow> error + 'b) \<Rightarrow> error + 'b" where
  "and_then m k = (case m of Inl e \<Rightarrow> Inl e | Inr v \<Rightarrow> k v)"

text \<open>
  Pillow. A decoded image is modelled by its \<^verbatim>\<open>size\<close>, the pair (width, height);
  the pixels are not modelled. \<^verbatim>\<open>Image.resize\<close> returns a copy when the size is
  unchanged and refuses a target with a dimension below 1 with \<^verbatim>\<open>ValueError\<close>.
  \<^verbatim>\<open>Image.open\<close> reads from the file system, a map from paths to the stored images
  that no function below writes.
\<close>

type_synonym pil_image = "int \<times> int"

type_synonym files = "string \<rightharpoonup> pil_image"

definition pil_resize :: "pil_image \<Rightarrow> int \<times> int \<Rightarrow> error + pil_image" where
  "pil_resize im sz =
     (if sz = im then Inr im
      else if fst sz < 1 \<or> snd sz < 1 then Inl ValueError
      else Inr sz)"

definition image_open :: "files \<Rightarrow> string \<Rightarrow> error + pil_image" where
  "image_open fs path = (case fs path of None \<Rightarrow> Inl OSError | Some im \<Rightarrow> Inr im)"

text \<open>
  The Pillow calls of \<^verbatim>\<open>TextAnnotation.render_image\<close> that load the font, measure,
  paint and rotate the text (lines 46 to 76) are a parameter of the model: from the text,
  the font path, the scaled font size, the scaled padding, the colour, the background and
  the rotation they raise or give the rendered buffer.
\<close>

type_synonym rasterizer =
  "string \<Rightarrow> string \<Rightarrow> int \<Rightarrow> int \<Rightarrow> string \<Rightarrow> string option \<Rightarrow> int \<Rightarrow> error + pil_image"

text \<open>
  Qt. A \<^verbatim>\<open>QRect(x, y, w, h)\<close> is the tuple of its arguments and a \<^verbatim>\<open>QPoint\<close> a pair.
  A rectangle is true in a Python condition when it is valid (both extents positive);
  \<^verbatim>\<open>contains\<close> has inclusive bounds \<open>x .. x + w - 1\<close> and normalises a rectangle whose
  right edge lies left of its left edge, as Qt does.
\<close>

type_synonym qrect = "int \<times> int \<times> int \<times> int"

type_synonym qpoint = "int \<times> int"

definition qrect_is_valid :: "qrect \<Rightarrow> bool" where
  "qrect_is_valid r = (case r of (rx, ry, rw, rh) \<Rightarrow> 0 < rw \<and> 0 < rh)"

definition qrect_contains :: "qrect \<Rightarrow> qpoint \<Rightarrow> bool" where
  "qrect_contains r p =
     (case r of (rx, ry, rw, rh) \<Rightarrow>
        let x2 = rx + rw - 1; y2 = ry + rh - 1;
            lft = (if x2 < rx - 1 then x2 else rx); rgt = (if x2 < rx - 1 then rx else x2);
            top = (if y2 < ry - 1 then y2 else ry); bot = (if y2 < ry - 1 then ry else y2)
        in \<not> (fst p < lft \<or> rgt < fst p) \<and> \<not> (snd p < top \<or> bot < snd p))"

section \<open>Annotations\<close>

text \<open>
  The fields both classes share are one record, extended by the fields of each class.
  \<open>pdf_x\<close>, \<open>pdf_y\<close> (and \<open>pdf_width\<close>, \<open>pdf_height\<close>) are the PDF-space geometry;
  \<open>x\<close>, \<open>y\<close>, \<open>width\<close>, \<open>height\<close>, \<open>rect\<close> and \<open>img\<close> are screen space.
  The field \<^verbatim>\<open>resize_handle\<close> of an image annotation is never read and is left out.
\<close>

record annotation_base =
  pdf_x :: real
  pdf_y :: real
  x :: int
  y :: int
  img :: "pil_image option"
  rect :: "qrect option"
  selected :: bool
  scale_factor :: real

record text_annotation = annotation_base +
  "text" :: string
  font_size :: int
  color :: string
  font_path :: string
  rotation :: int
  bold :: bool
  italic :: bool
  underline :: bool
  background :: "string option"

record image_annotation = annotation_base +
  image_path :: string
  pdf_width :: real
  pdf_height :: real
  width :: int
  height :: int

subsection \<open>Methods of both classes\<close>

definition contains_point :: "'a annotation_base_scheme \<Rightarrow> qpoint \<Rightarrow> bool" where
  "contains_point self point =
     (case rect self of
        None \<Rightarrow> False
      | Some r \<Rightarrow> if qrect_is_valid r then qrect_contains r point else False)"

text \<open>
  \<^verbatim>\<open>TextAnnotation.move\<close> and \<^verbatim>\<open>ImageAnnotation.move\<close> are the same code (the first
  writes \<^verbatim>\<open>float(self.x)\<close> where the second writes \<^verbatim>\<open>self.x\<close>): one function on the
  shared fields models both.
\<close>

definition move ::
  "'a annotation_base_scheme \<Rightarrow> int \<Rightarrow> int \<Rightarrow> error + 'a annotation_base_scheme" where
  "move self dx dy =
     (let a1 = self\<lparr>x := x self + dx, y := y self + dy\<rparr>
      in if scale_factor a1 = 0 then Inl ZeroDivisionError
         else
           let a2 = a1\<lparr>pdf_x := of_int (x a1) / scale_factor a1,
                       pdf_y := of_int (y a1) / scale_factor a1\<rparr>
           in case rect a2 of
                None \<Rightarrow> Inl AttributeError
              | Some (rx, ry, rw, rh) \<Rightarrow> Inr (a2\<lparr>rect := Some (x a2, y a2, rw, rh)\<rparr>))"

subsection \<open>TextAnnotation\<close>

definition render_image ::
  "rasterizer \<Rightarrow> text_annotation \<Rightarrow> real option \<Rightarrow> error + text_annotation" where
  "render_image rasterize self scale =
     (let a1 = (case scale of None \<Rightarrow> self | Some s \<Rightarrow> self\<lparr>scale_factor := s\<rparr>);
          actual_font_size = py_int (of_int (font_size a1) * scale_factor a1);
          padding = py_int (10 * scale_factor a1)
      in case rasterize (text a1) (font_path a1) actual_font_size padding
                (color a1) (background a1) (rotation a1) of
           Inl e \<Rightarrow> Inl e
         | Inr im \<Rightarrow>
             let a2 = a1\<lparr>img := Some im,
                         x := py_int (pdf_x a1 * scale_factor a1),
                         y := py_int (pdf_y a1 * scale_factor a1)\<rparr>
             in Inr (a2\<lparr>rect := Some (x a2, y a2, fst im, snd im)\<rparr>))"

definition text_init ::
  "rasterizer \<Rightarrow> string \<Rightarrow> real \<Rightarrow> real \<Rightarrow> int \<Rightarrow> string \<Rightarrow> string \<Rightarrow> int \<Rightarrow>
     bool \<Rightarrow> bool \<Rightarrow> bool \<Rightarrow> string option \<Rightarrow> error + text_annotation" where
  "text_init rasterize txt0 x0 y0 font_size0 color0 font_path0 rotation0
       bold0 italic0 underline0 background0 =
     render_image rasterize
       \<lparr>pdf_x = x0, pdf_y = y0, x = py_int x0, y = py_int y0, img = None, rect = None,
        selected = False, scale_factor = 1,
        text = txt0, font_size = font_size0, color = color0, font_path = font_path0,
        rotation = rotation0, bold = bold0, italic = italic0, underline = underline0,
        background = background0\<rparr>
       None"

subsection \<open>ImageAnnotation\<close>

definition MAX_SIZE :: int where
  "MAX_SIZE = 500"

text \<open>Lines 186 to 203 of the constructor: the resize of a large image at load time.\<close>

definition load_resize :: "pil_image \<Rightarrow> error + pil_image" where
  "load_resize im =
     (let orig_width = fst im; orig_height = snd im
      in if orig_width > MAX_SIZE \<or> orig_height > MAX_SIZE then
           let resize_factor =
                 (if orig_width \<ge> orig_height then of_int MAX_SIZE / of_int orig_width
                  else of_int MAX_SIZE / of_int orig_height);
               new_width = py_int (of_int orig_width * resize_factor);
               new_height = py_int (of_int orig_height * resize_factor)
           in pil_resize im (new_width, new_height)
         else Inr im)"

definition image_init ::
  "files \<Rightarrow> string \<Rightarrow> real \<Rightarrow> real \<Rightarrow> real option \<Rightarrow> real option \<Rightarrow> error + image_annotation" where
  "image_init fs image_path0 x0 y0 width0 height0 =
     and_then (image_open fs image_path0) (\<lambda>opened.
     and_then (load_resize opened) (\<lambda>im.
     and_then
       (case (width0, height0) of
          (Some w, Some h) \<Rightarrow>
            and_then (pil_resize im (py_int w, py_int h)) (\<lambda>im'. Inr (w, h, im'))
        | _ \<Rightarrow> Inr (of_int (fst im), of_int (snd im), im))
       (\<lambda>(pw, ph, im').
          Inr \<lparr>pdf_x = x0, pdf_y = y0, x = py_int x0, y = py_int y0, img = Some im',
               rect = Some (py_int x0, py_int y0, fst im', snd im'),
               selected = False, scale_factor = 1,
               image_path = image_path0, pdf_width = pw, pdf_height = ph,
               width = fst im', height = snd im'\<rparr>)))"

definition resize :: "image_annotation \<Rightarrow> int \<Rightarrow> int \<Rightarrow> error + image_annotation" where
  "resize self width0 height0 =
     (let a1 = self\<lparr>width := max 20 width0, height := max 20 height0\<rparr>
      in if scale_factor a1 = 0 then Inl ZeroDivisionError
         else
           let a2 = a1\<lparr>pdf_width := of_int (width a1) / scale_factor a1,
                       pdf_height := of_int (height a1) / scale_factor a1\<rparr>
           in case img a2 of
                None \<Rightarrow> Inl AttributeError
              | Some im \<Rightarrow>
                  and_then (pil_resize im (width a2, height a2)) (\<lambda>im'.
                    Inr (a2\<lparr>img := Some im',
                            rect := Some (x a2, y a2, width a2, height a2)\<rparr>)))"

definition update_scale :: "image_annotation \<Rightarrow> real \<Rightarrow> error + image_annotation" where
  "update_scale self s =
     (let a1 = self\<lparr>scale_factor := s,
                     x := py_int (pdf_x self * s),
                     y := py_int (pdf_y self * s)\<rparr>;
          new_width = py_int (pdf_width a1 * s);
          new_height = py_int (pdf_height a1 * s)
      in if \<bar>width a1 - new_width\<bar> > 2 \<or> \<bar>height a1 - new_height\<bar> > 2 then
           (case img a1 of
              None \<Rightarrow> Inl AttributeError
            | Some im \<Rightarrow>
                and_then (pil_resize im (new_width, new_height)) (\<lambda>im'.
                  Inr (a1\<lparr>width := new_width, height := new_height, img := Some im',
                          rect := Some (x a1, y a1, new_width, new_height)\<rparr>)))
         else Inr (a1\<lparr>rect := Some (x a1, y a1, width a1, height a1)\<rparr>))"

subsection \<open>Records of a template: to_dict and from_dict\<close>

text \<open>
  A record is a Python dictionary from string keys to values. The values that occur are
  strings, floats, ints, booleans and \<^verbatim>\<open>None\<close>. \<^verbatim>\<open>data[k]\<close> raises
  \<^verbatim>\<open>KeyError\<close> on a missing key and \<^verbatim>\<open>data.get(k, d)\<close> gives the default.
  The fields of the model are typed: a value of another dynamic type than its field's
  is reported as \<^verbatim>\<open>TypeError\<close> (Python would store it and fail at its first use);
  \<^verbatim>\<open>float\<close> of a string or of \<^verbatim>\<open>None\<close> is reported as an error as well.
\<close>

datatype pyval = PStr string | PFloat real | PInt int | PBool bool | PNone

type_synonym pydict = "string \<rightharpoonup> pyval"

definition getitem :: "pydict \<Rightarrow> string \<Rightarrow> error + pyval" where
  "getitem d k = (case d k of None \<Rightarrow> Inl KeyError | Some v \<Rightarrow> Inr v)"

definition dict_get :: "pydict \<Rightarrow> string \<Rightarrow> pyval \<Rightarrow> pyval" where
  "dict_get d k dflt = (case d k of None \<Rightarrow> dflt | Some v \<Rightarrow> v)"

fun py_float :: "pyval \<Rightarrow> error + real" where
  "py_float (PFloat f) = Inr f"
| "py_float (PInt n) = Inr (of_int n)"
| "py_float (PBool b) = Inr (if b then 1 else 0)"
| "py_float (PStr s) = Inl ValueError"
| "py_float PNone = Inl TypeError"

fun as_str :: "pyval \<Rightarrow> error + string" where
  "as_str (PStr s) = Inr s"
| "as_str v = Inl TypeError"

fun as_int :: "pyval \<Rightarrow> error + int" where
  "as_int (PInt n) = Inr n"
| "as_int v = Inl TypeError"

fun as_bool :: "pyval \<Rightarrow> error + bool" where
  "as_bool (PBool b) = Inr b"
| "as_bool v = Inl TypeError"

fun as_optional_str :: "pyval \<Rightarrow> error + string option" where
  "as_optional_str (PStr s) = Inr (Some s)"
| "as_optional_str PNone = Inr None"
| "as_optional_str v = Inl TypeError"

definition text_to_dict :: "text_annotation \<Rightarrow> pydict" where
  "text_to_dict self =
     [''type'' \<mapsto> PStr ''text'',
      ''text'' \<mapsto> PStr (text self),
      ''x'' \<mapsto> PFloat (pdf_x self),
      ''y'' \<mapsto> PFloat (pdf_y self),
      ''font_size'' \<mapsto> PInt (font_size self),
      ''color'' \<mapsto> PStr (color self),
      ''font_path'' \<mapsto> PStr (font_path self),
      ''rotation'' \<mapsto> PInt (rotation self),
      ''bold'' \<mapsto> PBool (bold self),
      ''italic'' \<mapsto> PBool (italic self),
      ''underline'' \<mapsto> PBool (underline self),
      ''background'' \<mapsto> (case background self of None \<Rightarrow> PNone | Some c \<Rightarrow> PStr c)]"

definition text_from_dict :: "rasterizer \<Rightarrow> pydict \<Rightarrow> error + text_annotation" where
  "text_from_dict rasterize data =
     and_then (getitem data ''text'') (\<lambda>v_text.
     and_then (getitem data ''x'') (\<lambda>v_x.
     and_then (getitem data ''y'') (\<lambda>v_y.
     and_then (getitem data ''font_size'') (\<lambda>v_font_size.
     and_then (getitem data ''color'') (\<lambda>v_color.
     and_then (as_str v_text) (\<lambda>a_text.
     and_then (py_float v_x) (\<lambda>a_x.
     and_then (py_float v_y) (\<lambda>a_y.
     and_then (as_int v_font_size) (\<lambda>a_font_size.
     and_then (as_str v_color) (\<lambda>a_color.
     and_then (as_str (dict_get data ''font_path'' (PStr ''pyidaungsu.ttf''))) (\<lambda>a_font_path.
     and_then (as_int (dict_get data ''rotation'' (PInt 0))) (\<lambda>a_rotation.
     and_then (as_bool (dict_get data ''bold'' (PBool False))) (\<lambda>a_bold.
     and_then (as_bool (dict_get data ''italic'' (PBool False))) (\<lambda>a_italic.
     and_then (as_bool (dict_get data ''underline'' (PBool False))) (\<lambda>a_underline.
     and_then (as_optional_str (dict_get data ''background'' PNone)) (\<lambda>a_background.
       text_init rasterize a_text a_x a_y a_font_size a_color a_font_path a_rotation
         a_bold a_italic a_underline a_background))))))))))))))))"

definition image_to_dict :: "image_annotation \<Rightarrow> pydict" where
  "image_to_dict self =
     [''type'' \<mapsto> PStr ''image'',
      ''image_path'' \<mapsto> PStr (image_path self),
      ''x'' \<mapsto> PFloat (pdf_x self),
      ''y'' \<mapsto> PFloat (pdf_y self),
      ''width'' \<mapsto> PFloat (pdf_width self),
      ''height'' \<mapsto> PFloat (pdf_height self)]"

text \<open>
  \<^verbatim>\<open>ImageAnnotation.from_dict\<close> passes \<^verbatim>\<open>width\<close> and \<^verbatim>\<open>height\<close> as they are:
  \<^verbatim>\<open>None\<close> selects the native size in the constructor, any other value goes through
  \<^verbatim>\<open>float\<close>.
\<close>

fun py_optional_float :: "pyval \<Rightarrow> error + real option" where
  "py_optional_float PNone = Inr None"
| "py_optional_float v = and_then (py_float v) (\<lambda>f. Inr (Some f))"

definition image_from_dict :: "files \<Rightarrow> pydict \<Rightarrow> error + image_annotation" where
  "image_from_dict fs data =
     and_then (getitem data ''image_path'') (\<lambda>v_image_path.
     and_then (getitem data ''x'') (\<lambda>v_x.
     and_then (getitem data ''y'') (\<lambda>v_y.
     and_then (getitem data ''width'') (\<lambda>v_width.
     and_then (getitem data ''height'') (\<lambda>v_height.
     and_then (as_str v_image_path) (\<lambda>a_image_path.
     and_then (py_float v_x) (\<lambda>a_x.
     and_then (py_float v_y) (\<lambda>a_y.
     and_then (py_optional_float v_width) (\<lambda>a_width.
     and_then (py_optional_float v_height) (\<lambda>a_height.
       image_init fs a_image_path a_x a_y a_width a_height))))))))))"



section \<open>The page annotation store of the viewer\<close>

text \<open>
  \<^verbatim>\<open>PDFViewerWidget\<close> holds the annotation objects in per-page lists and a second
  reference to one of them in \<^verbatim>\<open>selected_annotation\<close>; the methods mutate the objects
  through either. The objects therefore live in a store addressed by references, and the
  page lists and the selection hold references. A reference without an object does not
  arise in the program; the functions below skip it. The document is modelled by its
  number of pages (\<open>None\<close>: no document is loaded); a document without pages is false
  in a Python condition. The field \<^verbatim>\<open>scale_factor\<close> of the widget is
  \<open>viewer_scale_factor\<close>. The tool and drag fields are not read by the methods below.
\<close>

datatype annotation = TextAnnotation text_annotation | ImageAnnotation image_annotation

type_synonym objref = nat

record viewer =
  doc :: "nat option"
  current_page :: nat
  annotations :: "nat \<rightharpoonup> objref list"
  selected_annotation :: "objref option"
  viewer_scale_factor :: real
  heap :: "objref \<rightharpoonup> annotation"

fun is_selected :: "annotation \<Rightarrow> bool" where
  "is_selected (TextAnnotation t) = selected t"
| "is_selected (ImageAnnotation i) = selected i"



fun annotation_contains_point :: "annotation \<Rightarrow> qpoint \<Rightarrow> bool" where
  "annotation_contains_point (TextAnnotation t) pos = contains_point t pos"
| "annotation_contains_point (ImageAnnotation i) pos = contains_point i pos"

definition hit :: "(objref \<rightharpoonup> annotation) \<Rightarrow> qpoint \<Rightarrow> objref \<Rightarrow> bool" where
  "hit h pos r = (case h r of None \<Rightarrow> False | Some a \<Rightarrow> annotation_contains_point a pos)"

text \<open>
  The loop of \<^verbatim>\<open>update_page_display\<close> over the annotations of the current page:
  a text annotation is rendered again and an image annotation rescaled, at the zoom of
  the viewer. Rasterising the page, encoding the buffers and painting (PyMuPDF,
  Pillow, Qt) do not change the state and are taken to succeed.
\<close>

fun rescale :: "rasterizer \<Rightarrow> real \<Rightarrow> annotation \<Rightarrow> error + annotation" where
  "rescale rasterize s (TextAnnotation t) =
     and_then (render_image rasterize t (Some s)) (\<lambda>t'. Inr (TextAnnotation t'))"
| "rescale rasterize s (ImageAnnotation i) =
     and_then (update_scale i s) (\<lambda>i'. Inr (ImageAnnotation i'))"

fun display_annotations ::
  "rasterizer \<Rightarrow> real \<Rightarrow> objref list \<Rightarrow> (objref \<rightharpoonup> annotation) \<Rightarrow>
     error + (objref \<rightharpoonup> annotation)" where
  "display_annotations rasterize s [] h = Inr h"
| "display_annotations rasterize s (r # rs) h =
     (case h r of
        None \<Rightarrow> display_annotations rasterize s rs h
      | Some a \<Rightarrow>
          and_then (rescale rasterize s a) (\<lambda>a'.
            display_annotations rasterize s rs (h(r \<mapsto> a'))))"

definition update_page_display :: "rasterizer \<Rightarrow> viewer \<Rightarrow> error + viewer" where
  "update_page_display rasterize self =
     (case doc self of
        None \<Rightarrow> Inr self
      | Some n \<Rightarrow>
          if n = 0 then Inr self
          else if n \<le> current_page self then Inl IndexError
          else
            (case annotations self (current_page self) of
               None \<Rightarrow> Inr self
             | Some refs \<Rightarrow>
                 and_then
                   (display_annotations rasterize (viewer_scale_factor self) refs (heap self))
                   (\<lambda>h. Inr (self\<lparr>heap := h\<rparr>))))"

definition next_page :: "rasterizer \<Rightarrow> viewer \<Rightarrow> error + viewer" where
  "next_page rasterize self =
     (case doc self of
        None \<Rightarrow> Inr self
      | Some n \<Rightarrow>
          if 0 < n \<and> int (current_page self) < int n - 1
          then update_page_display rasterize (self\<lparr>current_page := current_page self + 1\<rparr>)
          else Inr self)"

text \<open>The loop of \<^verbatim>\<open>find_annotation_at_position\<close> over the reversed page list.\<close>

fun first_hit :: "(objref \<rightharpoonup> annotation) \<Rightarrow> qpoint \<Rightarrow> objref list \<Rightarrow> objref option" where
  "first_hit h pos [] = None"
| "first_hit h pos (r # rs) = (if hit h pos r then Some r else first_hit h pos rs)"

definition find_annotation_at_position :: "viewer \<Rightarrow> qpoint \<Rightarrow> objref option" where
  "find_annotation_at_position self pos =
     (case annotations self (current_page self) of
        None \<Rightarrow> None
      | Some refs \<Rightarrow> first_hit (heap self) pos (rev refs))"


text \<open>
  \<^verbatim>\<open>list.remove\<close> deletes the first element equal to its argument and raises
  \<^verbatim>\<open>ValueError\<close> when there is none; annotation objects compare by identity.
\<close>

definition delete_selected_annotation :: "rasterizer \<Rightarrow> viewer \<Rightarrow> error + viewer" where
  "delete_selected_annotation rasterize self =
     (case selected_annotation self of
        None \<Rightarrow> Inr self
      | Some sel \<Rightarrow>
          (case annotations self (current_page self) of
             None \<Rightarrow> Inr self
           | Some refs \<Rightarrow>
               if sel \<in> set refs then
                 update_page_display rasterize
                   (self\<lparr>annotations := (annotations self)(current_page self \<mapsto> remove1 sel refs),
                         selected_annotation := None\<rparr>)
               else Inl ValueError))"


section \<open>Properties of states\<close>

text \<open>
  Screen and PDF position agree under truncation: the relation
  \<^verbatim>\<open>render_image\<close> and \<^verbatim>\<open>update_scale\<close> leave behind.
\<close>

definition synced :: "'a annotation_base_scheme \<Rightarrow> bool" where
  "synced a =
     (x a = py_int (pdf_x a * scale_factor a) \<and> y a = py_int (pdf_y a * scale_factor a))"

text \<open>
  The weaker relation that also holds after a move, and under rounding to nearest: the
  screen position is less than one pixel away from the scaled PDF position.
\<close>

definition near_pdf_position :: "'a annotation_base_scheme \<Rightarrow> bool" where
  "near_pdf_position a =
     (\<bar>of_int (x a) - pdf_x a * scale_factor a\<bar> < 1 \<and>
      \<bar>of_int (y a) - pdf_y a * scale_factor a\<bar> < 1)"


definition selected_in :: "(objref \<rightharpoonup> annotation) \<Rightarrow> objref \<Rightarrow> bool" where
  "selected_in h r = (case h r of None \<Rightarrow> False | Some a \<Rightarrow> is_selected a)"



section \<open>Example inputs\<close>

text \<open>
  A file system with a 128 by 128 image, a 2000 by 1000 image and a 4000 by 15 image,
  a rasteriser that opens only the bundled font and sizes the buffer from the text
  length, the font size and the padding, and objects made from them with the
  constructors.
\<close>

definition example_files :: files where
  "example_files =
     [''stamp.png'' \<mapsto> (128, 128), ''photo.png'' \<mapsto> (2000, 1000),
      ''strip.png'' \<mapsto> (4000, 15)]"

definition example_rasterize :: rasterizer where
  "example_rasterize t fp fs pad col bg rot =
     (if fp = ''pyidaungsu.ttf'' then Inr (int (length t) * fs + 2 * pad, fs + 2 * pad)
      else Inl OSError)"

definition example_image :: image_annotation where
  "example_image =
     \<lparr>pdf_x = 3 / 4, pdf_y = 0, x = 0, y = 0, img = Some (128, 128),
      rect = Some (0, 0, 128, 128), selected = False, scale_factor = 1,
      image_path = ''stamp.png'', pdf_width = 128, pdf_height = 128,
      width = 128, height = 128\<rparr>"

definition example_text :: text_annotation where
  "example_text =
     \<lparr>pdf_x = 3 / 4, pdf_y = 10, x = 0, y = 10, img = Some (46, 33),
      rect = Some (0, 10, 46, 33), selected = False, scale_factor = 1,
      text = ''hi'', font_size = 13, color = ''red'', font_path = ''pyidaungsu.ttf'',
      rotation = 0, bold = False, italic = False, underline = False,
      background = None\<rparr>"



text \<open>The first two objects as the viewer shows them at its initial zoom 2.\<close>

definition example_image_zoomed :: image_annotation where
  "example_image_zoomed =
     \<lparr>pdf_x = 3 / 4, pdf_y = 0, x = 1, y = 0, img = Some (256, 256),
      rect = Some (1, 0, 256, 256), selected = False, scale_factor = 2,
      image_path = ''stamp.png'', pdf_width = 128, pdf_height = 128,
      width = 256, height = 256\<rparr>"

definition example_text_zoomed :: text_annotation where
  "example_text_zoomed =
     \<lparr>pdf_x = 3 / 4, pdf_y = 10, x = 1, y = 20, img = Some (92, 66),
      rect = Some (1, 20, 92, 66), selected = False, scale_factor = 2,
      text = ''hi'', font_size = 13, color = ''red'', font_path = ''pyidaungsu.ttf'',
      rotation = 0, bold = False, italic = False, underline = False,
      background = None\<rparr>"

text \<open>
  A two-page document at zoom 2, page 0 shown, with the image (reference 0) and then the
  text (reference 1) added to page 0 and nothing selected; the state after the image
  was selected; and that state after going to page 1.
\<close>

definition example_viewer :: viewer where
  "example_viewer =
     \<lparr>doc = Some 2, current_page = 0,
      annotations = [0 \<mapsto> [0, 1], 1 \<mapsto> []],
      selected_annotation = None, viewer_scale_factor = 2,
      heap = [0 \<mapsto> ImageAnnotation example_image_zoomed,
              1 \<mapsto> TextAnnotation example_text_zoomed]\<rparr>"

definition example_viewer_selected :: viewer where
  "example_viewer_selected =
     example_viewer
       \<lparr>selected_annotation := Some 0,
        heap := [0 \<mapsto> ImageAnnotation (example_image_zoomed\<lparr>selected := True\<rparr>),
                 1 \<mapsto> TextAnnotation example_text_zoomed]\<rparr>"

definition example_viewer_next_page :: viewer where
  "example_viewer_next_page = example_viewer_selected\<lparr>current_page := 1\<rparr>"


section \<open>Lemmas on the collaborators and the examples\<close>

lemma py_int_of_int: "py_int (of_int n) = n"
  by (simp add: py_int_def)

lemma py_int_close: "\<bar>of_int (py_int f) - f\<bar> < 1"
  unfolding py_int_def by (auto; linarith)

lemma and_then_Inr_iff: "and_then m k = Inr v \<longleftrightarrow> (\<exists>u. m = Inr u \<and> k u = Inr v)"
  by (cases m) (simp_all add: and_then_def)

lemma and_then_Inr [simp]: "and_then (Inr u) k = k u"
  by (simp add: and_then_def)

lemma and_then_Inl [simp]: "and_then (Inl e) k = Inl e"
  by (simp add: and_then_def)

lemma pil_resize_ok: "1 \<le> fst sz \<Longrightarrow> 1 \<le> snd sz \<Longrightarrow> pil_resize im sz = Inr sz"
  by (auto simp: pil_resize_def)


text \<open>The example objects are what the constructors and the rescaling methods return.\<close>

lemma image_init_example:
  "image_init example_files ''stamp.png'' (3 / 4) 0 None None = Inr example_image"
  by (simp add: image_init_def example_files_def example_image_def image_open_def
      load_resize_def MAX_SIZE_def py_int_def)

lemma text_init_example:
  "text_init example_rasterize ''hi'' (3 / 4) 10 13 ''red'' ''pyidaungsu.ttf'' 0
     False False False None = Inr example_text"
  by (simp add: text_init_def render_image_def example_rasterize_def example_text_def py_int_def)





section \<open>Screen position after a geometry change\<close>




lemma move_Inr:
  assumes "move a dx dy = Inr a'"
  shows "x a' = x a + dx" "y a' = y a + dy" "scale_factor a' = scale_factor a"
    "scale_factor a \<noteq> 0"
    "pdf_x a' = of_int (x a') / scale_factor a'" "pdf_y a' = of_int (y a') / scale_factor a'"
  using assms
  by (auto simp: move_def Let_def split: if_splits option.splits prod.splits)






section \<open>Screen size of an image after a scale update\<close>




section \<open>Resize\<close>

text \<open>
  C3. For an image annotation with a positive scale factor (and its pixel buffer, which
  the constructor always sets), \<^verbatim>\<open>resize(new_width, new_height)\<close> returns, with
  \<open>width = max 20 new_width\<close>, \<open>height = max 20 new_height\<close>,
  \<open>pdf_width = width / scale_factor\<close> and \<open>pdf_height = height / scale_factor\<close>; the
  scale factor is unchanged. In particular \<^verbatim>\<open>resize(5, 5)\<close> gives 20 by 20.
\<close>

theorem resize_clamps_to_minimum:
  "0 < scale_factor a \<and> img a \<noteq> None \<longrightarrow>
     (\<exists>b. resize a w h = Inr b \<and>
        width b = max 20 w \<and> height b = max 20 h \<and>
        pdf_width b = of_int (width b) / scale_factor b \<and>
        pdf_height b = of_int (height b) / scale_factor b \<and>
        scale_factor b = scale_factor a)"
  by (auto simp: resize_def Let_def pil_resize_ok)

theorem resize_clamps_to_minimum_witness:
  "0 < scale_factor example_image_zoomed \<and> img example_image_zoomed \<noteq> None \<and>
   (\<exists>b. resize example_image_zoomed 5 5 = Inr b \<and> width b = 20 \<and> height b = 20 \<and>
      pdf_width b = 10 \<and> pdf_height b = 10)"
  using resize_clamps_to_minimum [of example_image_zoomed 5 5]
  by (auto simp: example_image_zoomed_def)

section \<open>Rescaling leaves the PDF-space fields alone\<close>



section \<open>Move and inverse move\<close>

lemma synced_near: "synced a \<Longrightarrow> near_pdf_position a"
  using py_int_close[of "pdf_x a * scale_factor a"] py_int_close[of "pdf_y a * scale_factor a"]
  by (simp add: synced_def near_pdf_position_def)

lemma rounded_near:
  "x a = round (pdf_x a * scale_factor a) \<Longrightarrow> y a = round (pdf_y a * scale_factor a) \<Longrightarrow>
     near_pdf_position a"
  using of_int_round_abs_le[of "pdf_x a * scale_factor a"]
    of_int_round_abs_le[of "pdf_y a * scale_factor a"]
  by (simp add: near_pdf_position_def)

lemma move_near: "move a dx dy = Inr a' \<Longrightarrow> near_pdf_position a'"
  using move_Inr[of a dx dy a'] by (simp add: near_pdf_position_def)

text \<open>
  C7. Take an annotation as its methods leave it: a positive scale factor, a rectangle,
  and a screen position less than one pixel away from the scaled PDF position (which
  truncation, rounding and a move all give). Then \<^verbatim>\<open>move(dx, dy)\<close> followed by
  \<^verbatim>\<open>move(-dx, -dy)\<close> returns, the screen position is the original one, and
  \<open>pdf_x\<close>, \<open>pdf_y\<close> differ from their original values by less than
  \<open>1 / scale_factor\<close>, one device pixel in PDF space. The arithmetic is exact here;
  the rounding of doubles adds an error of the order of one unit in the last place.
\<close>

theorem move_then_inverse_move:
  "0 < scale_factor a \<and> near_pdf_position a \<and> rect a \<noteq> None \<longrightarrow>
     (\<exists>a1 a2. move a dx dy = Inr a1 \<and> move a1 (- dx) (- dy) = Inr a2 \<and>
        x a2 = x a \<and> y a2 = y a \<and> scale_factor a2 = scale_factor a \<and>
        \<bar>pdf_x a2 - pdf_x a\<bar> < 1 / scale_factor a \<and>
        \<bar>pdf_y a2 - pdf_y a\<bar> < 1 / scale_factor a)"
proof (intro impI, elim conjE)
  assume pos: "0 < scale_factor a" and near: "near_pdf_position a" and r: "rect a \<noteq> None"
  let ?s = "scale_factor a"
  obtain a1 where m1: "move a dx dy = Inr a1" and r1: "rect a1 \<noteq> None"
    using pos r by (auto simp: move_def Let_def split: prod.splits)
  from move_Inr[OF m1] have s1: "scale_factor a1 = ?s" "x a1 = x a + dx" "y a1 = y a + dy"
    by simp_all
  obtain a2 where m2: "move a1 (- dx) (- dy) = Inr a2"
    using pos r1 s1 by (auto simp: move_def Let_def split: prod.splits)
  from move_Inr[OF m2] s1 have s2: "scale_factor a2 = ?s" "x a2 = x a" "y a2 = y a"
    "pdf_x a2 = of_int (x a) / ?s" "pdf_y a2 = of_int (y a) / ?s"
    by simp_all
  have bx: "\<bar>of_int (x a) - pdf_x a * ?s\<bar> < 1"
    using near by (simp add: near_pdf_position_def)
  have by': "\<bar>of_int (y a) - pdf_y a * ?s\<bar> < 1"
    using near by (simp add: near_pdf_position_def)
  have ex: "pdf_x a2 - pdf_x a = (of_int (x a) - pdf_x a * ?s) / ?s"
    using pos s2 by (simp add: field_simps)
  have ey: "pdf_y a2 - pdf_y a = (of_int (y a) - pdf_y a * ?s) / ?s"
    using pos s2 by (simp add: field_simps)
  have "\<bar>pdf_x a2 - pdf_x a\<bar> < 1 / ?s"
    unfolding ex using pos bx by (simp add: abs_divide divide_strict_right_mono)
  moreover have "\<bar>pdf_y a2 - pdf_y a\<bar> < 1 / ?s"
    unfolding ey using pos by' by (simp add: abs_divide divide_strict_right_mono)
  ultimately show "\<exists>a1 a2. move a dx dy = Inr a1 \<and> move a1 (- dx) (- dy) = Inr a2 \<and>
        x a2 = x a \<and> y a2 = y a \<and> scale_factor a2 = scale_factor a \<and>
        \<bar>pdf_x a2 - pdf_x a\<bar> < 1 / scale_factor a \<and>
        \<bar>pdf_y a2 - pdf_y a\<bar> < 1 / scale_factor a"
    using m1 m2 s2 by auto
qed

theorem move_then_inverse_move_witness:
  "0 < scale_factor example_image_zoomed \<and> near_pdf_position example_image_zoomed \<and>
   rect example_image_zoomed \<noteq> None \<and>
   (\<exists>a1 a2. move example_image_zoomed 3 4 = Inr a1 \<and> move a1 (- 3) (- 4) = Inr a2 \<and>
      x a2 = 1 \<and> pdf_x a2 = 1 / 2 \<and> pdf_x example_image_zoomed = 3 / 4 \<and>
      \<bar>pdf_x a2 - pdf_x example_image_zoomed\<bar> < 1 / 2)"
  using move_then_inverse_move [of example_image_zoomed 3 4]
  by (simp add: move_def near_pdf_position_def example_image_zoomed_def)

section \<open>Round trip through a record\<close>

lemma text_from_dict_to_dict:
  "text_from_dict rasterize (text_to_dict t) =
     text_init rasterize (text t) (pdf_x t) (pdf_y t) (font_size t) (color t) (font_path t)
       (rotation t) (bold t) (italic t) (underline t) (background t)"
  by (cases "background t")
    (simp_all add: text_from_dict_def text_to_dict_def getitem_def dict_get_def)

lemma image_from_dict_to_dict:
  "image_from_dict fs (image_to_dict i) =
     image_init fs (image_path i) (pdf_x i) (pdf_y i) (Some (pdf_width i)) (Some (pdf_height i))"
  by (simp add: image_from_dict_def image_to_dict_def getitem_def)



text \<open>
  When the round trip returns: for a text annotation, when the text rasterises at scale 1;
  for an image annotation, when the file opens, the load-time resize succeeds and the
  truncated PDF size is a size Pillow accepts.
\<close>

lemma text_round_trip_returns:
  "(\<exists>t'. text_from_dict rasterize (text_to_dict t) = Inr t') \<longleftrightarrow>
     (\<exists>im. rasterize (text t) (font_path t) (font_size t) 10 (color t) (background t)
        (rotation t) = Inr im)"
proof -
  have p: "py_int 10 = 10" by (simp add: py_int_def)
  show ?thesis
    by (auto simp: text_from_dict_to_dict text_init_def render_image_def Let_def
        py_int_of_int p split: sum.splits)
qed

lemma image_round_trip_returns:
  "(\<exists>i'. image_from_dict fs (image_to_dict i) = Inr i') \<longleftrightarrow>
     (\<exists>src im im'. image_open fs (image_path i) = Inr src \<and> load_resize src = Inr im \<and>
        pil_resize im (py_int (pdf_width i), py_int (pdf_height i)) = Inr im')"
  by (auto simp: image_from_dict_to_dict image_init_def and_then_Inr_iff)






section \<open>Hit test\<close>

lemma first_hit_Some_iff:
  "first_hit h pos rs = Some r \<longleftrightarrow>
     (\<exists>ys zs. rs = ys @ r # zs \<and> hit h pos r \<and> (\<forall>q\<in>set ys. \<not> hit h pos q))"
proof (induction rs)
  case Nil
  then show ?case by simp
next
  case (Cons q rs)
  show ?case
  proof (cases "hit h pos q")
    case True
    have "(\<exists>ys zs. q # rs = ys @ r # zs \<and> hit h pos r \<and> (\<forall>q\<in>set ys. \<not> hit h pos q))
        \<longleftrightarrow> q = r"
    proof
      assume "\<exists>ys zs. q # rs = ys @ r # zs \<and> hit h pos r \<and> (\<forall>q\<in>set ys. \<not> hit h pos q)"
      then obtain ys zs where e: "q # rs = ys @ r # zs" and n: "\<forall>q\<in>set ys. \<not> hit h pos q"
        by blast
      show "q = r"
      proof (cases ys)
        case Nil
        with e show ?thesis by simp
      next
        case (Cons b bs)
        with e n True show ?thesis by auto
      qed
    next
      assume "q = r"
      with True have "q # rs = [] @ r # rs \<and> hit h pos r \<and> (\<forall>q\<in>set []. \<not> hit h pos q)"
        by simp
      then show "\<exists>ys zs. q # rs = ys @ r # zs \<and> hit h pos r \<and> (\<forall>q\<in>set ys. \<not> hit h pos q)"
        by blast
    qed
    with True show ?thesis by auto
  next
    case False
    have "(\<exists>ys zs. q # rs = ys @ r # zs \<and> hit h pos r \<and> (\<forall>q\<in>set ys. \<not> hit h pos q))
        \<longleftrightarrow> (\<exists>ys zs. rs = ys @ r # zs \<and> hit h pos r \<and> (\<forall>q\<in>set ys. \<not> hit h pos q))"
    proof
      assume "\<exists>ys zs. q # rs = ys @ r # zs \<and> hit h pos r \<and> (\<forall>q\<in>set ys. \<not> hit h pos q)"
      then obtain ys zs where e: "q # rs = ys @ r # zs" and hr: "hit h pos r"
        and n: "\<forall>q\<in>set ys. \<not> hit h pos q"
        by blast
      show "\<exists>ys zs. rs = ys @ r # zs \<and> hit h pos r \<and> (\<forall>q\<in>set ys. \<not> hit h pos q)"
      proof (cases ys)
        case Nil
        with e hr False show ?thesis by simp
      next
        case (Cons b bs)
        with e n hr have "rs = bs @ r # zs \<and> hit h pos r \<and> (\<forall>q\<in>set bs. \<not> hit h pos q)"
          by simp
        then show ?thesis by blast
      qed
    next
      assume "\<exists>ys zs. rs = ys @ r # zs \<and> hit h pos r \<and> (\<forall>q\<in>set ys. \<not> hit h pos q)"
      then obtain ys zs where "rs = ys @ r # zs" "hit h pos r" "\<forall>q\<in>set ys. \<not> hit h pos q"
        by blast
      with False have "q # rs = (q # ys) @ r # zs \<and> hit h pos r \<and>
          (\<forall>q\<in>set (q # ys). \<not> hit h pos q)"
        by simp
      then show "\<exists>ys zs. q # rs = ys @ r # zs \<and> hit h pos r \<and> (\<forall>q\<in>set ys. \<not> hit h pos q)"
        by blast
    qed
    with False Cons.IH show ?thesis by simp
  qed
qed

lemma first_hit_None_iff: "first_hit h pos rs = None \<longleftrightarrow> (\<forall>q\<in>set rs. \<not> hit h pos q)"
  by (induction rs) auto

lemma rev_eq_append_Cons: "rev refs = ys @ r # zs \<longleftrightarrow> refs = rev zs @ r # rev ys"
proof
  assume "rev refs = ys @ r # zs"
  then have "rev (rev refs) = rev (ys @ r # zs)" by simp
  then show "refs = rev zs @ r # rev ys" by simp
next
  assume "refs = rev zs @ r # rev ys"
  then show "rev refs = ys @ r # zs" by simp
qed

lemma topmost_Some_iff:
  "first_hit h pos (rev refs) = Some r \<longleftrightarrow>
     (\<exists>before after. refs = before @ r # after \<and> hit h pos r \<and>
        (\<forall>q\<in>set after. \<not> hit h pos q))"
proof
  assume "first_hit h pos (rev refs) = Some r"
  then obtain ys zs where "rev refs = ys @ r # zs" "hit h pos r" "\<forall>q\<in>set ys. \<not> hit h pos q"
    unfolding first_hit_Some_iff by blast
  then have "refs = rev zs @ r # rev ys \<and> hit h pos r \<and> (\<forall>q\<in>set (rev ys). \<not> hit h pos q)"
    by (simp add: rev_eq_append_Cons)
  then show "\<exists>before after. refs = before @ r # after \<and> hit h pos r \<and>
      (\<forall>q\<in>set after. \<not> hit h pos q)"
    by blast
next
  assume "\<exists>before after. refs = before @ r # after \<and> hit h pos r \<and>
      (\<forall>q\<in>set after. \<not> hit h pos q)"
  then obtain before after where "refs = before @ r # after" "hit h pos r"
    "\<forall>q\<in>set after. \<not> hit h pos q"
    by blast
  then have "rev refs = rev after @ r # rev before \<and> hit h pos r \<and>
      (\<forall>q\<in>set (rev after). \<not> hit h pos q)"
    by simp
  then show "first_hit h pos (rev refs) = Some r"
    unfolding first_hit_Some_iff by blast
qed

text \<open>
  C5. \<^verbatim>\<open>find_annotation_at_position\<close> returns none when the current page has no
  sequence. Otherwise it returns \<open>r\<close> exactly when \<open>r\<close> stands in the sequence, contains
  the point, and no annotation inserted after it contains the point; it returns none
  exactly when no annotation of the sequence contains the point. For the sequence of two
  annotations A then B that both contain the point it returns B. (\<open>hit\<close> is
  \<^verbatim>\<open>contains_point\<close> of the referenced object.)
\<close>

theorem hit_test_topmost_first:
  "(annotations v (current_page v) = None \<longrightarrow> find_annotation_at_position v pos = None) \<and>
   (annotations v (current_page v) = Some refs \<longrightarrow>
      (find_annotation_at_position v pos = Some r \<longleftrightarrow>
         (\<exists>before after. refs = before @ r # after \<and> hit (heap v) pos r \<and>
            (\<forall>q\<in>set after. \<not> hit (heap v) pos q))) \<and>
      (find_annotation_at_position v pos = None \<longleftrightarrow>
         (\<forall>q\<in>set refs. \<not> hit (heap v) pos q))) \<and>
   (annotations v (current_page v) = Some [ra, rb] \<and> hit (heap v) pos ra \<and>
      hit (heap v) pos rb \<longrightarrow>
      find_annotation_at_position v pos = Some rb)"
proof (intro conjI impI)
  assume "annotations v (current_page v) = None"
  then show "find_annotation_at_position v pos = None"
    by (simp add: find_annotation_at_position_def)
next
  assume p: "annotations v (current_page v) = Some refs"
  then show "find_annotation_at_position v pos = Some r \<longleftrightarrow>
         (\<exists>before after. refs = before @ r # after \<and> hit (heap v) pos r \<and>
            (\<forall>q\<in>set after. \<not> hit (heap v) pos q))"
    by (simp add: find_annotation_at_position_def topmost_Some_iff)
  from p show "find_annotation_at_position v pos = None \<longleftrightarrow>
         (\<forall>q\<in>set refs. \<not> hit (heap v) pos q)"
    by (simp add: find_annotation_at_position_def first_hit_None_iff)
next
  assume "annotations v (current_page v) = Some [ra, rb] \<and> hit (heap v) pos ra \<and>
      hit (heap v) pos rb"
  then show "find_annotation_at_position v pos = Some rb"
    by (simp add: find_annotation_at_position_def)
qed

lemma hit_example:
  "hit (heap example_viewer) (10, 30) 0" "hit (heap example_viewer) (10, 30) 1"
  "hit (heap example_viewer) (200, 200) 0" "\<not> hit (heap example_viewer) (200, 200) 1"
  by (simp_all add: hit_def example_viewer_def contains_point_def qrect_is_valid_def
      qrect_contains_def example_image_zoomed_def example_text_zoomed_def)

theorem hit_test_topmost_first_witness:
  "annotations example_viewer (current_page example_viewer) = Some [0, 1] \<and>
   hit (heap example_viewer) (10, 30) 0 \<and> hit (heap example_viewer) (10, 30) 1 \<and>
   find_annotation_at_position example_viewer (10, 30) = Some 1 \<and>
   find_annotation_at_position example_viewer (200, 200) = Some 0 \<and>
   find_annotation_at_position example_viewer (300, 300) = None \<and>
   annotations (example_viewer\<lparr>current_page := 5\<rparr>)
     (current_page (example_viewer\<lparr>current_page := 5\<rparr>)) = None \<and>
   find_annotation_at_position (example_viewer\<lparr>current_page := 5\<rparr>) (10, 30) = None"
  using hit_test_topmost_first [of example_viewer "(10, 30)" "[0, 1]" 1 0 1]
    hit_test_topmost_first [of "example_viewer\<lparr>current_page := 5\<rparr>" "(10, 30)"]
    hit_example
  by (simp add: find_annotation_at_position_def hit_def example_viewer_def contains_point_def
      qrect_is_valid_def qrect_contains_def example_image_zoomed_def example_text_zoomed_def)


section \<open>Selection\<close>

lemma rescale_is_selected:
  "rescale rasterize s a = Inr a' \<Longrightarrow> is_selected a' = is_selected a"
  by (cases a)
    (auto simp: and_then_Inr_iff render_image_def update_scale_def Let_def
      split: sum.splits if_splits option.splits)

lemma display_annotations_selected:
  "display_annotations rasterize s rs h = Inr h' \<Longrightarrow> selected_in h' q = selected_in h q"
proof (induction rs arbitrary: h)
  case Nil
  then show ?case by simp
next
  case (Cons r rs)
  show ?case
  proof (cases "h r")
    case None
    with Cons show ?thesis by simp
  next
    case (Some a)
    with Cons.prems obtain a' where a': "rescale rasterize s a = Inr a'"
      and rest: "display_annotations rasterize s rs (h(r \<mapsto> a')) = Inr h'"
      by (auto simp: and_then_Inr_iff)
    from Cons.IH[OF rest] have "selected_in h' q = selected_in (h(r \<mapsto> a')) q" .
    also have "\<dots> = selected_in h q"
      using rescale_is_selected[OF a'] Some by (simp add: selected_in_def)
    finally show ?thesis .
  qed
qed

lemma display_annotations_dom:
  "display_annotations rasterize s rs h = Inr h' \<Longrightarrow> h' q = None \<longleftrightarrow> h q = None"
proof (induction rs arbitrary: h)
  case Nil
  then show ?case by simp
next
  case (Cons r rs)
  show ?case
  proof (cases "h r")
    case None
    with Cons show ?thesis by simp
  next
    case (Some a)
    with Cons.prems obtain a' where
      rest: "display_annotations rasterize s rs (h(r \<mapsto> a')) = Inr h'"
      by (auto simp: and_then_Inr_iff)
    from Cons.IH[OF rest] Some show ?thesis by auto
  qed
qed

lemma update_page_display_frame:
  assumes "update_page_display rasterize v = Inr v'"
  shows "annotations v' = annotations v" "selected_annotation v' = selected_annotation v"
    "current_page v' = current_page v" "selected_in (heap v') q = selected_in (heap v) q"
    "heap v' q = None \<longleftrightarrow> heap v q = None"
  using assms
  by (auto simp: update_page_display_def and_then_Inr_iff display_annotations_selected
      display_annotations_dom split: option.splits if_splits)
















section \<open>Deleting the selected annotation\<close>

text \<open>
  What \<^verbatim>\<open>delete_selected_annotation\<close> does in each case: nothing when nothing is
  selected or the current page has no sequence; it removes the selected annotation from
  the sequence of the current page and clears the selection when it is there; and it
  raises \<^verbatim>\<open>ValueError\<close> when the selected annotation is not in that sequence.
\<close>

lemma next_page_example:
  "next_page example_rasterize example_viewer_selected = Inr example_viewer_next_page"
  by (simp add: next_page_def example_viewer_next_page_def example_viewer_def
      example_viewer_selected_def update_page_display_def)

lemma delete_nothing_selected:
  "selected_annotation v = None \<Longrightarrow> delete_selected_annotation rasterize v = Inr v"
  by (simp add: delete_selected_annotation_def)

lemma delete_page_missing:
  "annotations v (current_page v) = None \<Longrightarrow> delete_selected_annotation rasterize v = Inr v"
  by (simp add: delete_selected_annotation_def split: option.splits)

lemma delete_present:
  assumes "selected_annotation v = Some r" and "annotations v (current_page v) = Some refs"
    and "r \<in> set refs" and "delete_selected_annotation rasterize v = Inr v'"
  shows "annotations v' = (annotations v)(current_page v \<mapsto> remove1 r refs)"
    and "selected_annotation v' = None"
  using assms update_page_display_frame(1,2)
    [of rasterize "v\<lparr>annotations := (annotations v)(current_page v \<mapsto> remove1 r refs),
        selected_annotation := None\<rparr>" v']
  by (simp_all add: delete_selected_annotation_def)

lemma delete_absent:
  "selected_annotation v = Some r \<Longrightarrow> annotations v (current_page v) = Some refs \<Longrightarrow>
     r \<notin> set refs \<Longrightarrow> delete_selected_annotation rasterize v = Inl ValueError"
  by (simp add: delete_selected_annotation_def)



section \<open>Loading a large image\<close>










end
